theory Spec2Isabelle
  imports Main "HOL-Library.Char_ord" "HOL-Library.List_Lexorder"
begin

section \<open>Objective-C name helpers of the protobuf compiler (names.cc)\<close>

text \<open>
  A shallow embedding of \<^verbatim>\<open>src/google/protobuf/compiler/objectivec/names.cc\<close>:
  the camel-case converter, the identifier sanitizer, the resolution of a file's class
  prefix and the validation of class prefixes against the expected-prefixes file.
  A \<^verbatim>\<open>std::string\<close> is a \<^typ>\<open>string\<close> (a list of bytes).
\<close>

subsection \<open>Character classes (absl/strings/ascii.h)\<close>

text \<open>
  The absl predicates are table lookups over the 256 byte values and do not depend on
  the locale: digits are 0x30..0x39, upper case letters 0x41..0x5A, lower case letters
  0x61..0x7A, and the white space characters are space, tab, line feed, vertical tab,
  form feed and carriage return.
\<close>

definition ascii_isdigit :: "char \<Rightarrow> bool" where
  "ascii_isdigit c = (48 \<le> (of_char c :: nat) \<and> (of_char c :: nat) \<le> 57)"

definition ascii_islower :: "char \<Rightarrow> bool" where
  "ascii_islower c = (97 \<le> (of_char c :: nat) \<and> (of_char c :: nat) \<le> 122)"

definition ascii_isupper :: "char \<Rightarrow> bool" where
  "ascii_isupper c = (65 \<le> (of_char c :: nat) \<and> (of_char c :: nat) \<le> 90)"

definition ascii_isspace :: "char \<Rightarrow> bool" where
  "ascii_isspace c = ((of_char c :: nat) = 32 \<or> (9 \<le> (of_char c :: nat) \<and> (of_char c :: nat) \<le> 13))"

definition ascii_tolower :: "char \<Rightarrow> char" where
  "ascii_tolower c = (if ascii_isupper c then char_of ((of_char c :: nat) + 32) else c)"

definition ascii_toupper :: "char \<Rightarrow> char" where
  "ascii_toupper c = (if ascii_islower c then char_of ((of_char c :: nat) - 32) else c)"

text \<open>\<^verbatim>\<open>absl::StartsWith(text, prefix)\<close>: an empty prefix always matches.\<close>

definition StartsWith :: "string \<Rightarrow> string \<Rightarrow> bool" where
  "StartsWith text pre =
     (pre = [] \<or> (length pre \<le> length text \<and> take (length pre) text = pre))"

text \<open>\<^verbatim>\<open>absl::StripPrefix(str, prefix)\<close>: the string without the prefix when it
  starts with it, the string itself otherwise.\<close>

definition StripPrefix :: "string \<Rightarrow> string \<Rightarrow> string" where
  "StripPrefix str pre = (if StartsWith str pre then drop (length pre) str else str)"

subsection \<open>UnderscoresToCamelCase\<close>

definition kUpperSegmentsList :: "string list" where
  "kUpperSegmentsList = [''url'', ''http'', ''https'']"

text \<open>
  The first loop of \<^verbatim>\<open>UnderscoresToCamelCase\<close>: it walks the input with the three
  flags \<^verbatim>\<open>last_char_was_number\<close>, \<^verbatim>\<open>last_char_was_lower\<close> and
  \<^verbatim>\<open>last_char_was_upper\<close>, pushes \<^verbatim>\<open>current\<close> onto \<^verbatim>\<open>values\<close> where a
  segment starts, and pushes the last \<^verbatim>\<open>current\<close> after the loop.
\<close>

fun segment_loop ::
  "string \<Rightarrow> string list \<Rightarrow> string \<Rightarrow> bool \<Rightarrow> bool \<Rightarrow> bool \<Rightarrow> string list" where
  "segment_loop [] values current was_number was_lower was_upper = values @ [current]"
| "segment_loop (c # cs) values current was_number was_lower was_upper =
     (if ascii_isdigit c then
        (if \<not> was_number
         then segment_loop cs (values @ [current]) [c] True False False
         else segment_loop cs values (current @ [c]) True False False)
      else if ascii_islower c then
        (if \<not> was_lower \<and> \<not> was_upper
         then segment_loop cs (values @ [current]) [c] False True False
         else segment_loop cs values (current @ [c]) False True False)
      else if ascii_isupper c then
        (if \<not> was_upper
         then segment_loop cs (values @ [current]) [ascii_tolower c] False False True
         else segment_loop cs values (current @ [ascii_tolower c]) False False True)
      else segment_loop cs values current False False False)"

definition segment_values :: "string \<Rightarrow> string list" where
  "segment_values input = segment_loop input [] [] False False False"

text \<open>
  The inner loop of the second phase: position 0 of a segment is upper-cased, and every
  position when the segment is one of \<^verbatim>\<open>kUpperSegments\<close>.
\<close>

definition upcase_value :: "bool \<Rightarrow> string \<Rightarrow> string" where
  "upcase_value all_upper v =
     map (\<lambda>(j, ch). if j = 0 \<or> all_upper then ascii_toupper ch else ch)
       (zip [0 ..< length v] v)"

text \<open>
  The second loop: the segments are appended to \<^verbatim>\<open>result\<close>, and
  \<^verbatim>\<open>first_segment_forces_upper\<close> is set when an all-upper segment is met while
  \<^verbatim>\<open>result\<close> is still empty.
\<close>

fun assemble_loop :: "string list \<Rightarrow> string \<Rightarrow> bool \<Rightarrow> string \<times> bool" where
  "assemble_loop [] result forces = (result, forces)"
| "assemble_loop (v # vs) result forces =
     (let all_upper = (v \<in> set kUpperSegmentsList);
          forces' = (if all_upper \<and> length result = 0 then True else forces)
      in assemble_loop vs (result @ upcase_value all_upper v) forces')"

definition assemble :: "string list \<Rightarrow> bool \<Rightarrow> string" where
  "assemble values first_capitalized =
     (case assemble_loop values [] False of
        (result, first_segment_forces_upper) \<Rightarrow>
          if length result \<noteq> 0 \<and> \<not> first_capitalized \<and> \<not> first_segment_forces_upper
          then ascii_tolower (hd result) # tl result
          else result)"

definition UnderscoresToCamelCase :: "string \<Rightarrow> bool \<Rightarrow> string" where
  "UnderscoresToCamelCase input first_capitalized = assemble (segment_values input) first_capitalized"

subsection \<open>SanitizeNameForObjC\<close>

definition kReservedWordList :: "string list" where
  "kReservedWordList = [
    ''id'', ''_cmd'', ''super'', ''in'', ''out'', ''inout'', ''bycopy'', ''byref'',
    ''oneway'', ''self'', ''instancetype'', ''nullable'', ''nonnull'', ''nil'', ''Nil'',
    ''YES'', ''NO'', ''weak'', ''and'', ''and_eq'', ''alignas'', ''alignof'', ''asm'',
    ''auto'', ''bitand'', ''bitor'', ''bool'', ''break'', ''case'', ''catch'', ''char'',
    ''char16_t'', ''char32_t'', ''class'', ''compl'', ''const'', ''constexpr'',
    ''const_cast'', ''continue'', ''decltype'', ''default'', ''delete'', ''double'',
    ''dynamic_cast'', ''else'', ''enum'', ''explicit'', ''export'', ''extern '',
    ''false'', ''float'', ''for'', ''friend'', ''goto'', ''if'', ''inline'', ''int'',
    ''long'', ''mutable'', ''namespace'', ''new'', ''noexcept'', ''not'', ''not_eq'',
    ''nullptr'', ''operator'', ''or'', ''or_eq'', ''private'', ''protected'',
    ''public'', ''register'', ''reinterpret_cast'', ''return'', ''short'', ''signed'',
    ''sizeof'', ''static'', ''static_assert'', ''static_cast'', ''struct'', ''switch'',
    ''template'', ''this'', ''thread_local'', ''throw'', ''true'', ''try'', ''typedef'',
    ''typeid'', ''typename'', ''union'', ''unsigned'', ''using'', ''virtual'', ''void'',
    ''volatile'', ''wchar_t'', ''while'', ''xor'', ''xor_eq'', ''restrict'', ''typeof'',
    ''NULL'', ''stdin'', ''stdout'', ''stderr'', ''Category'', ''Ivar'', ''Method'',
    ''Protocol'', ''clear'', ''data'', ''delimitedData'', ''descriptor'',
    ''extensionRegistry'', ''extensionsCurrentlySet'', ''initialized'',
    ''isInitialized'', ''serializedSize'', ''sortedExtensionsInUse'', ''unknownFields'',
    ''Fixed'', ''Fract'', ''Size'', ''LogicalAddress'', ''PhysicalAddress'',
    ''ByteCount'', ''ByteOffset'', ''Duration'', ''AbsoluteTime'', ''OptionBits'',
    ''ItemCount'', ''PBVersion'', ''ScriptCode'', ''LangCode'', ''RegionCode'',
    ''OSType'', ''ProcessSerialNumber'', ''Point'', ''Rect'', ''FixedPoint'',
    ''FixedRect'', ''Style'', ''StyleParameter'', ''StyleField'', ''TimeScale'',
    ''TimeBase'', ''TimeRecord'']"

text \<open>
  \<^verbatim>\<open>isupper\<close> of the C library, which \<^verbatim>\<open>IsReservedCIdentifier\<close> calls: the
  compiler never leaves the "C" locale, where the upper case letters are A to Z.
\<close>

definition isupper :: "char \<Rightarrow> bool" where
  "isupper c = (65 \<le> (of_char c :: nat) \<and> (of_char c :: nat) \<le> 90)"

definition IsReservedCIdentifier :: "string \<Rightarrow> bool" where
  "IsReservedCIdentifier input =
     (if length input > 2 then
        (if input ! 0 = CHR ''_'' then
           (if isupper (input ! 1) \<or> input ! 1 = CHR ''_'' then True else False)
         else False)
      else False)"

text \<open>
  The first statement of \<^verbatim>\<open>SanitizeNameForObjC\<close>, which chooses between
  \<^verbatim>\<open>prefix + input\<close> and \<^verbatim>\<open>input\<close>. The index \<^verbatim>\<open>input[prefix.length()]\<close>
  is read only when \<^verbatim>\<open>input\<close> starts with the prefix and is longer than it.
\<close>

definition add_prefix :: "string \<Rightarrow> string \<Rightarrow> string" where
  "add_prefix pre input =
     (if StartsWith input pre then
        (if length input = length pre \<or> \<not> ascii_isupper (input ! length pre)
         then pre @ input
         else input)
      else pre @ input)"

text \<open>
  The collision test on the prefixed name. The table \<^verbatim>\<open>kNSObjectMethodsList\<close> comes
  from the generated header nsobject_methods.h and is a parameter here.
\<close>

definition is_reserved :: "string list \<Rightarrow> string \<Rightarrow> bool" where
  "is_reserved kNSObjectMethodsList sanitized =
     (IsReservedCIdentifier sanitized \<or>
      sanitized \<in> set kReservedWordList \<or>
      sanitized \<in> set kNSObjectMethodsList)"

text \<open>
  \<^verbatim>\<open>SanitizeNameForObjC\<close> returns the name and what it stores in
  \<^verbatim>\<open>*out_suffix_added\<close>: the extension when it was appended, the empty string
  otherwise. A caller that passes a null pointer drops the second component.
\<close>

definition SanitizeNameForObjC ::
  "string list \<Rightarrow> string \<Rightarrow> string \<Rightarrow> string \<Rightarrow> string \<times> string" where
  "SanitizeNameForObjC kNSObjectMethodsList pre input extension =
     (let sanitized = add_prefix pre input in
      if is_reserved kNSObjectMethodsList sanitized
      then (sanitized @ extension, extension)
      else (sanitized, []))"

subsection \<open>Descriptors, maps and the line-oriented loader\<close>

text \<open>
  What the helpers read of a \<^verbatim>\<open>FileDescriptor\<close>: its name (the path of the .proto
  file), its package and the file option \<^verbatim>\<open>objc_class_prefix\<close>, which is absent or
  holds a string (the empty string is a value of its own).
\<close>

record FileDescriptor =
  name :: string
  package :: string
  objc_class_prefix_option :: "string option"

definition has_objc_class_prefix :: "FileDescriptor \<Rightarrow> bool" where
  "has_objc_class_prefix file = (objc_class_prefix_option file \<noteq> None)"

definition objc_class_prefix :: "FileDescriptor \<Rightarrow> string" where
  "objc_class_prefix file = (case objc_class_prefix_option file of None \<Rightarrow> [] | Some p \<Rightarrow> p)"

text \<open>
  A \<^verbatim>\<open>std::map<std::string, std::string>\<close> is the list of its entries in the order
  an iterator visits them: ascending keys, compared byte by byte.
  \<^verbatim>\<open>m[key] = value\<close> is \<open>map_assign\<close>, \<^verbatim>\<open>m.find(key)\<close> is \<open>map_find\<close>.
\<close>

type_synonym string_map = "(string \<times> string) list"

fun map_assign :: "string \<Rightarrow> string \<Rightarrow> string_map \<Rightarrow> string_map" where
  "map_assign k v [] = [(k, v)]"
| "map_assign k v ((k', v') # m) =
     (if k = k' then (k, v) # m
      else if k < k' then (k, v) # (k', v') # m
      else (k', v') # map_assign k v m)"

definition map_find :: "string_map \<Rightarrow> string \<Rightarrow> string option" where
  "map_find m k = map_of m k"

text \<open>The process's side effects: the files the loader was asked to read, and the lines
  written to \<^verbatim>\<open>std::cerr\<close>, both in order.\<close>

record io =
  files_read :: "string list"
  cerr :: "string list"

text \<open>
  The file system is a parameter: for a path, either the error text of a load that
  fails, or the lines a load hands to its consumer (comments and blank lines are the
  loader's to skip).
\<close>

datatype file_content = Unreadable string | FileLines "string list"

type_synonym file_system = "string \<Rightarrow> file_content"

text \<open>
  Modelled from the spec: the loop of \<^verbatim>\<open>ParseSimpleFile\<close> over the lines
  (line_consumer.cc is not among the sources). Every line goes to the consumer, and a
  line the consumer refuses fails the whole load with the consumer's error.
\<close>

fun consume_lines ::
  "(string \<Rightarrow> 's \<Rightarrow> bool \<times> string \<times> 's) \<Rightarrow> string list \<Rightarrow> 's \<Rightarrow> bool \<times> string \<times> 's" where
  "consume_lines consume [] s = (True, [], s)"
| "consume_lines consume (l # ls) s =
     (case consume l s of
        (ok, err, s') \<Rightarrow> if ok then consume_lines consume ls s' else (False, err, s'))"

text \<open>
  Modelled from the spec: \<^verbatim>\<open>ParseSimpleFile\<close> (line_consumer.cc is not among the
  sources). It reads the file at the path, one entry per line, and returns whether the
  load succeeded, the error text, and the consumer's state; a file that cannot be read
  fails the load.
\<close>

definition ParseSimpleFile ::
  "file_system \<Rightarrow> string \<Rightarrow> (string \<Rightarrow> 's \<Rightarrow> bool \<times> string \<times> 's) \<Rightarrow> 's \<Rightarrow> io
     \<Rightarrow> (bool \<times> string \<times> 's) \<times> io" where
  "ParseSimpleFile fs path consume s w =
     (let w' = w\<lparr>files_read := files_read w @ [path]\<rparr> in
      case fs path of
        Unreadable err \<Rightarrow> ((False, err, s), w')
      | FileLines ls \<Rightarrow> (consume_lines consume ls s, w'))"

text \<open>\<^verbatim>\<open>SimpleLineCollector::ConsumeLine\<close> inserts the line into the set.\<close>

definition SimpleLineCollector_ConsumeLine ::
  "string \<Rightarrow> string set \<Rightarrow> bool \<times> string \<times> string set" where
  "SimpleLineCollector_ConsumeLine line s = (True, [], insert line s)"

definition StripAsciiWhitespace :: "string \<Rightarrow> string" where
  "StripAsciiWhitespace s = rev (dropWhile ascii_isspace (rev (dropWhile ascii_isspace s)))"

definition apostrophe :: string where
  "apostrophe = [CHR 0x27]"

definition MaybeUnQuote :: "string \<Rightarrow> string" where
  "MaybeUnQuote input =
     (if length input \<ge> 2 \<and> (hd input = CHR 0x27 \<or> hd input = CHR 0x22) \<and>
         last input = hd input
      then butlast (tl input) else input)"

text \<open>\<^verbatim>\<open>line.find('=')\<close>: the offset of the first equal sign.\<close>

fun find_char :: "char \<Rightarrow> string \<Rightarrow> nat option" where
  "find_char c [] = None"
| "find_char c (x # xs) =
     (if x = c then Some 0 else map_option Suc (find_char c xs))"

definition PackageToPrefixesCollector_ConsumeLine ::
  "string \<Rightarrow> string \<Rightarrow> string_map \<Rightarrow> bool \<times> string \<times> string_map" where
  "PackageToPrefixesCollector_ConsumeLine usage line prefix_map =
     (case find_char CHR ''='' line of
        None \<Rightarrow>
          (False, usage @ '' file line without equal sign: '' @ apostrophe @ line @ apostrophe @ ''.'',
           prefix_map)
      | Some offset \<Rightarrow>
          (let pkg = StripAsciiWhitespace (take offset line);
               pre = MaybeUnQuote (StripAsciiWhitespace (drop (offset + 1) line))
           in (True, [], map_assign pkg pre prefix_map)))"

subsection \<open>PrefixModeStorage and FileClassPrefix\<close>

record PrefixModeStorage =
  use_package_name :: bool
  package_to_prefix_map :: string_map
  package_to_prefix_mappings_path :: string
  exception_path :: string
  forced_prefix :: string
  exceptions :: "string set"

definition set_package_to_prefix_mappings_path ::
  "string \<Rightarrow> PrefixModeStorage \<Rightarrow> PrefixModeStorage" where
  "set_package_to_prefix_mappings_path path st =
     st\<lparr>package_to_prefix_mappings_path := path, package_to_prefix_map := []\<rparr>"

definition set_exception_path :: "string \<Rightarrow> PrefixModeStorage \<Rightarrow> PrefixModeStorage" where
  "set_exception_path path st = st\<lparr>exception_path := path, exceptions := {}\<rparr>"

definition no_package_prefix :: string where
  "no_package_prefix = ''no_package:''"

definition lookup_key :: "FileDescriptor \<Rightarrow> string" where
  "lookup_key file =
     (if package file = [] then no_package_prefix @ name file else package file)"

text \<open>
  \<^verbatim>\<open>PrefixModeStorage::prefix_from_proto_package_mappings\<close>. The map is loaded when
  it is empty and a path is set; a failed load writes a warning and clears the map. The
  result is the mapped prefix, or the empty string.
\<close>

definition prefix_from_proto_package_mappings ::
  "file_system \<Rightarrow> FileDescriptor option \<Rightarrow> PrefixModeStorage \<Rightarrow> io
     \<Rightarrow> string \<times> PrefixModeStorage \<times> io" where
  "prefix_from_proto_package_mappings fs file_ptr st w =
     (case file_ptr of
        None \<Rightarrow> ([], st, w)
      | Some file \<Rightarrow>
          (let (st1, w1) =
             (if package_to_prefix_map st = [] \<and> package_to_prefix_mappings_path st \<noteq> [] then
                (case ParseSimpleFile fs (package_to_prefix_mappings_path st)
                        (PackageToPrefixesCollector_ConsumeLine ''Package to prefixes'')
                        (package_to_prefix_map st) w of
                   ((ok, error_str, m), w') \<Rightarrow>
                     if \<not> ok then
                       (let error_str' =
                          (if error_str = []
                           then ''protoc:0: warning: Failed to parse'' @
                                '' prefix to proto package mappings file: '' @
                                package_to_prefix_mappings_path st
                           else error_str)
                        in (st\<lparr>package_to_prefix_map := []\<rparr>,
                            w'\<lparr>cerr := cerr w' @ [error_str']\<rparr>))
                     else (st\<lparr>package_to_prefix_map := m\<rparr>, w'))
              else (st, w))
           in case map_find (package_to_prefix_map st1) (lookup_key file) of
                Some v \<Rightarrow> (v, st1, w1)
              | None \<Rightarrow> ([], st1, w1)))"

text \<open>
  \<^verbatim>\<open>PrefixModeStorage::is_package_exempted\<close>. The set is loaded when it is empty and
  a path is set; a failed load writes a warning and clears the set, and a set that is
  empty after the load gets the entry "<not a real package>", so that it is not loaded
  again.
\<close>

definition is_package_exempted ::
  "file_system \<Rightarrow> string \<Rightarrow> PrefixModeStorage \<Rightarrow> io \<Rightarrow> bool \<times> PrefixModeStorage \<times> io" where
  "is_package_exempted fs pkg st w =
     (let (st2, w2) =
        (if exceptions st = {} \<and> exception_path st \<noteq> [] then
           (case ParseSimpleFile fs (exception_path st) SimpleLineCollector_ConsumeLine
                   (exceptions st) w of
              ((ok, error_str, ex), w') \<Rightarrow>
                (let (ex1, w1) =
                   (if \<not> ok then
                      (let error_str' =
                         (if error_str = []
                          then ''protoc:0: warning: Failed to parse'' @
                               '' package prefix exceptions file: '' @ exception_path st
                          else error_str)
                       in ({}, w'\<lparr>cerr := cerr w' @ [error_str']\<rparr>))
                    else (ex, w'));
                     ex2 = (if ex1 = {} then insert ''<not a real package>'' ex1 else ex1)
                 in (st\<lparr>exceptions := ex2\<rparr>, w1)))
         else (st, w))
      in (pkg \<in> exceptions st2, st2, w2))"

text \<open>\<^verbatim>\<open>absl::StrSplit(text, ".", absl::SkipEmpty())\<close>: the pieces between the
  delimiters, without the empty ones.\<close>

fun split_loop :: "char \<Rightarrow> string \<Rightarrow> string \<Rightarrow> string list" where
  "split_loop d [] current = [current]"
| "split_loop d (c # cs) current =
     (if c = d then current # split_loop d cs [] else split_loop d cs (current @ [c]))"

definition StrSplit_SkipEmpty :: "string \<Rightarrow> char \<Rightarrow> string list" where
  "StrSplit_SkipEmpty text d = filter (\<lambda>piece. piece \<noteq> []) (split_loop d text [])"

text \<open>The loop of \<^verbatim>\<open>FileClassPrefix\<close> over the segments of the package.\<close>

fun package_prefix_loop :: "string list \<Rightarrow> string \<Rightarrow> string" where
  "package_prefix_loop [] result = result"
| "package_prefix_loop (segment # rest) result =
     (let part = UnderscoresToCamelCase segment True in
      if part = [] then package_prefix_loop rest result
      else package_prefix_loop rest ((if result \<noteq> [] then result @ ''_'' else result) @ part))"

definition FileClassPrefix ::
  "file_system \<Rightarrow> FileDescriptor \<Rightarrow> PrefixModeStorage \<Rightarrow> io \<Rightarrow> string \<times> PrefixModeStorage \<times> io" where
  "FileClassPrefix fs file st w =
     (if has_objc_class_prefix file then (objc_class_prefix file, st, w)
      else
        (case prefix_from_proto_package_mappings fs (Some file) st w of
           (mapped, st1, w1) \<Rightarrow>
             if mapped \<noteq> [] then (mapped, st1, w1)
             else if \<not> use_package_name st1 then ([], st1, w1)
             else
               (case is_package_exempted fs (package file) st1 w1 of
                  (exempted, st2, w2) \<Rightarrow>
                    if exempted then ([], st2, w2)
                    else
                      (let result = package_prefix_loop (StrSplit_SkipEmpty (package file) CHR ''.'') [];
                           result' = (if result \<noteq> [] then result @ ''_'' else result)
                       in (forced_prefix st2 @ result', st2, w2)))))"

subsection \<open>Validation of class prefixes\<close>

text \<open>The outcome of a validation: valid, or invalid with the text stored in
  \<^verbatim>\<open>*out_error\<close>.\<close>

datatype validation = Valid | Invalid string

text \<open>
  The loop of \<^verbatim>\<open>ValidateObjCClassPrefix\<close> over the expected prefixes, looking for
  an entry with the file's prefix: it stops at the first key that does not start with
  "no_package:", and otherwise keeps the last key it met.
\<close>

fun other_package_loop :: "string \<Rightarrow> string_map \<Rightarrow> string \<Rightarrow> string" where
  "other_package_loop pre [] other = other"
| "other_package_loop pre ((k, v) # rest) other =
     (if v = pre then
        (if \<not> StartsWith k no_package_prefix then k
         else other_package_loop pre rest k)
      else other_package_loop pre rest other)"

definition expected_mismatch_error :: "FileDescriptor \<Rightarrow> string \<Rightarrow> string" where
  \<open>expected_mismatch_error file expected =
     ''error: Expected 'option objc_class_prefix = "'' @ expected @ ''";'' @ apostrophe @
     (if package file \<noteq> [] then '' for package '' @ apostrophe @ package file @ apostrophe
      else []) @
     '' in '' @ apostrophe @ name file @ apostrophe @
     (if has_objc_class_prefix file
      then ''; but found '' @ apostrophe @ objc_class_prefix file @ ''' instead''
      else []) @
     ''.''\<close>

definition required_prefix_error :: "FileDescriptor \<Rightarrow> string" where
  \<open>required_prefix_error file =
     ''error: '' @ apostrophe @ name file @ ''' does not have a required 'option'' @
     '' objc_class_prefix'.''\<close>

definition prefix_reused_error :: "FileDescriptor \<Rightarrow> string \<Rightarrow> string \<Rightarrow> string" where
  \<open>prefix_reused_error file expected_prefixes_path other_package_for_prefix =
     ''error: Found 'option objc_class_prefix = "'' @ objc_class_prefix file @
     ''";' in '' @ apostrophe @ name file @ '''; that prefix is already used for '' @
     (if StartsWith other_package_for_prefix no_package_prefix
      then ''file '' @ apostrophe @ StripPrefix other_package_for_prefix no_package_prefix @
           apostrophe @ ''.''
      else apostrophe @ ''package '' @ other_package_for_prefix @ '';'.'') @
     '' It can only be reused by adding '' @ apostrophe @ lookup_key file @ '' = '' @
     objc_class_prefix file @ ''' to the expected prefixes file ('' @
     expected_prefixes_path @ '').''\<close>

definition capital_letter_warning :: "FileDescriptor \<Rightarrow> string" where
  \<open>capital_letter_warning file =
     ''protoc:0: warning: Invalid 'option objc_class_prefix = "'' @ objc_class_prefix file @
     ''";' in '' @ apostrophe @ name file @ ''';'' @
     '' it should start with a capital letter.''\<close>

definition length_warning :: "FileDescriptor \<Rightarrow> string" where
  \<open>length_warning file =
     ''protoc:0: warning: Invalid 'option objc_class_prefix = "'' @ objc_class_prefix file @
     ''";' in '' @ apostrophe @ name file @ ''';'' @
     '' Apple recommends they should be at least 3 characters long.''\<close>

definition registration_text :: "FileDescriptor \<Rightarrow> string" where
  \<open>registration_text file =
     lookup_key file @ '' = '' @
     (if objc_class_prefix file = [] then ''""'' else objc_class_prefix file)\<close>

definition not_registered_error :: "FileDescriptor \<Rightarrow> string \<Rightarrow> string" where
  \<open>not_registered_error file expected_prefixes_path =
     ''error: '' @ apostrophe @ name file @ ''' has 'option objc_class_prefix = "'' @
     objc_class_prefix file @ ''";', but it is not registered. Add '' @ apostrophe @
     registration_text file @
     ''' to the expected prefixes file ('' @ expected_prefixes_path @ '').''\<close>

definition unexpected_prefix_warning :: "FileDescriptor \<Rightarrow> string \<Rightarrow> string" where
  \<open>unexpected_prefix_warning file expected_prefixes_path =
     ''protoc:0: warning: Found unexpected 'option objc_class_prefix = "'' @
     objc_class_prefix file @ ''";' in '' @ apostrophe @ name file @
     '''; consider adding '' @ apostrophe @ registration_text file @
     ''' to the expected prefixes file ('' @ expected_prefixes_path @ '').''\<close>

text \<open>
  \<^verbatim>\<open>ValidateObjCClassPrefix\<close> returns the outcome and the warnings it writes to
  \<^verbatim>\<open>std::cerr\<close>.
\<close>

definition ValidateObjCClassPrefix ::
  "FileDescriptor \<Rightarrow> string \<Rightarrow> string_map \<Rightarrow> bool \<Rightarrow> bool \<Rightarrow> validation \<times> string list" where
  "ValidateObjCClassPrefix file prefixes_path expected_package_prefixes
       must_be_registered prefixes_required =
     (let has_prefix = has_objc_class_prefix file;
          have_expected_prefix_file = (prefixes_path \<noteq> []);
          pre = objc_class_prefix file
      in case map_find expected_package_prefixes (lookup_key file) of
           Some expected \<Rightarrow>
             if has_prefix \<and> expected = pre then (Valid, [])
             else (Invalid (expected_mismatch_error file expected), [])
         | None \<Rightarrow>
             if \<not> has_prefix then
               (if prefixes_required then (Invalid (required_prefix_error file), [])
                else (Valid, []))
             else
               (let other_package_for_prefix =
                      (if pre \<noteq> [] \<and> have_expected_prefix_file
                       then other_package_loop pre expected_package_prefixes []
                       else [])
                in if pre \<noteq> [] \<and> have_expected_prefix_file \<and> other_package_for_prefix \<noteq> []
                   then (Invalid (prefix_reused_error file prefixes_path other_package_for_prefix), [])
                   else
                     (let warn1 = (if pre \<noteq> [] \<and> \<not> ascii_isupper (pre ! 0)
                                   then [capital_letter_warning file] else []);
                          warn2 = (if pre \<noteq> [] \<and> length pre < 3
                                   then [length_warning file] else [])
                      in if have_expected_prefix_file then
                           (if must_be_registered
                            then (Invalid (not_registered_error file prefixes_path), warn1 @ warn2)
                            else (Valid, warn1 @ warn2 @
                                    [unexpected_prefix_warning file prefixes_path]))
                         else (Valid, warn1 @ warn2))))"

text \<open>The generation options the validation reads.\<close>

record Options =
  expected_prefixes_path :: string
  expected_prefixes_suppressions :: "string list"
  prefixes_must_be_registered :: bool
  require_prefixes :: bool

definition LoadExpectedPackagePrefixes ::
  "file_system \<Rightarrow> string \<Rightarrow> io \<Rightarrow> (bool \<times> string \<times> string_map) \<times> io" where
  "LoadExpectedPackagePrefixes fs path w =
     (if path = [] then ((True, [], []), w)
      else ParseSimpleFile fs path
             (PackageToPrefixesCollector_ConsumeLine ''Expected prefixes'') [] w)"

text \<open>The loop of \<^verbatim>\<open>ValidateObjCClassPrefixes\<close> over the files: a suppressed file is
  skipped, and the first invalid file ends the loop.\<close>

fun validate_files_loop ::
  "FileDescriptor list \<Rightarrow> Options \<Rightarrow> string_map \<Rightarrow> io \<Rightarrow> validation \<times> io" where
  "validate_files_loop [] opts expected w = (Valid, w)"
| "validate_files_loop (file # files) opts expected w =
     (if name file \<in> set (expected_prefixes_suppressions opts)
      then validate_files_loop files opts expected w
      else
        (case ValidateObjCClassPrefix file (expected_prefixes_path opts) expected
                (prefixes_must_be_registered opts) (require_prefixes opts) of
           (Invalid err, warnings) \<Rightarrow> (Invalid err, w\<lparr>cerr := cerr w @ warnings\<rparr>)
         | (Valid, warnings) \<Rightarrow>
             validate_files_loop files opts expected (w\<lparr>cerr := cerr w @ warnings\<rparr>)))"

definition ValidateObjCClassPrefixes ::
  "file_system \<Rightarrow> FileDescriptor list \<Rightarrow> Options \<Rightarrow> io \<Rightarrow> validation \<times> io" where
  "ValidateObjCClassPrefixes fs files generation_options w =
     (if expected_prefixes_path generation_options = ''-'' then (Valid, w)
      else
        (case LoadExpectedPackagePrefixes fs (expected_prefixes_path generation_options) w of
           ((ok, err, expected), w') \<Rightarrow>
             if \<not> ok then (Invalid err, w')
             else validate_files_loop files generation_options expected w'))"

subsection \<open>Concrete inputs\<close>

text \<open>
  A file system with an expected-prefixes file that registers package "a" with the
  prefix "ABC", one that registers package "c" with "XYZ", an empty file, and nothing
  else that can be read.
\<close>

definition example_files :: file_system where
  "example_files path =
     (if path = ''expected.txt'' then FileLines [''a = ABC'']
      else if path = ''other.txt'' then FileLines [''c = XYZ'']
      else if path = ''empty.txt'' then FileLines []
      else Unreadable [])"

definition file_a :: FileDescriptor where
  "file_a = \<lparr>name = ''a.proto'', package = ''a'', objc_class_prefix_option = Some ''ABC''\<rparr>"


definition file_plain :: FileDescriptor where
  "file_plain = \<lparr>name = ''x.proto'', package = ''foo.bar_baz'', objc_class_prefix_option = None\<rparr>"

definition file_unprefixed :: FileDescriptor where
  "file_unprefixed = \<lparr>name = ''e.proto'', package = ''e'', objc_class_prefix_option = Some []\<rparr>"

definition quiet :: io where
  "quiet = \<lparr>files_read = [], cerr = []\<rparr>"

definition storage ::
  "bool \<Rightarrow> string \<Rightarrow> string \<Rightarrow> string \<Rightarrow> PrefixModeStorage" where
  "storage use_package mappings_path exceptions_path forced =
     \<lparr>use_package_name = use_package, package_to_prefix_map = [],
      package_to_prefix_mappings_path = mappings_path, exception_path = exceptions_path,
      forced_prefix = forced, exceptions = {}\<rparr>"

definition options :: "string \<Rightarrow> bool \<Rightarrow> bool \<Rightarrow> Options" where
  "options path must_register required =
     \<lparr>expected_prefixes_path = path, expected_prefixes_suppressions = [],
      prefixes_must_be_registered = must_register, require_prefixes = required\<rparr>"

section \<open>Properties\<close>

subsection \<open>The camel-case converter\<close>

text \<open>
  C7. \<^verbatim>\<open>UnderscoresToCamelCase\<close> on the inputs the specification lists:
  "foo_bar" capitalized gives "FooBar"; "my_url" not capitalized gives "myURL", as "url"
  is one of \<^verbatim>\<open>kUpperSegments\<close>; the empty input gives the empty string; "v2_api"
  capitalized gives "V2Api".
\<close>

theorem camel_case_examples:
  "UnderscoresToCamelCase ''foo_bar'' True = ''FooBar'' \<and>
   ''url'' \<in> set kUpperSegmentsList \<and>
   UnderscoresToCamelCase ''my_url'' False = ''myURL'' \<and>
   UnderscoresToCamelCase '''' True = '''' \<and>
   UnderscoresToCamelCase ''v2_api'' True = ''V2Api''"
  by code_simp

text \<open>
  C8 as stated fails: the result for "HTTPServer" is not what the segments "http" and
  "server" assemble to (which is "HTTPServer").
\<close>

theorem camel_case_http_server_counterexample:
  "assemble [''http'', ''server''] True = ''HTTPServer'' \<and>
   UnderscoresToCamelCase ''HTTPServer'' True \<noteq> assemble [''http'', ''server''] True"
  by code_simp

text \<open>
  C8 (amended). A lower case letter that follows an upper case letter continues the
  segment, so "HTTPServer" is the single segment "httpserver" (after the empty segment
  pushed at the first letter); it is not an acronym, only its first letter is upper-cased
  and the result is "Httpserver".
\<close>

theorem camel_case_http_server:
  "segment_values ''HTTPServer'' = ['''', ''httpserver''] \<and>
   ''httpserver'' \<notin> set kUpperSegmentsList \<and>
   UnderscoresToCamelCase ''HTTPServer'' True = ''Httpserver''"
  by code_simp

subsection \<open>The sanitizer\<close>

lemma add_prefix_cases:
  "add_prefix pre input =
     (if StartsWith input pre \<and> length pre < length input \<and> ascii_isupper (input ! length pre)
      then input else pre @ input)"
  by (auto simp: add_prefix_def StartsWith_def)

lemma add_prefix_fixed:
  "(add_prefix pre input = input) =
     (pre = [] \<or> (StartsWith input pre \<and> length pre < length input \<and>
        ascii_isupper (input ! length pre)))"
  by (auto simp: add_prefix_cases)

text \<open>
  C1 as stated fails: "ABC" starts with the prefix "ABC" and has its length, and the
  prefix is added all the same.
\<close>

theorem add_prefix_same_length_counterexample:
  "StartsWith ''ABC'' ''ABC'' \<and> length ''ABC'' = length ''ABC'' \<and>
   add_prefix ''ABC'' ''ABC'' \<noteq> ''ABC''"
  by code_simp

text \<open>
  C1 (amended). The prefix step returns the input as it is when the input starts with the
  prefix, is longer than the prefix, and the character right after the prefix is upper
  case; in every other case (no overlap, an input equal to the prefix, or a character
  after the prefix that is not upper case) it returns the prefix followed by the input.
  So the input is unchanged exactly when the prefix is empty or that condition holds, and
  an input equal to the prefix \<open>p\<close> becomes \<open>p @ p\<close>.
\<close>

theorem add_prefix_rule:
  "add_prefix pre input =
     (if StartsWith input pre \<and> length pre < length input \<and> ascii_isupper (input ! length pre)
      then input else pre @ input) \<and>
   ((add_prefix pre input = input) =
     (pre = [] \<or> (StartsWith input pre \<and> length pre < length input \<and>
        ascii_isupper (input ! length pre)))) \<and>
   add_prefix pre pre = pre @ pre \<and>
   fst (SanitizeNameForObjC ns pre input ext) =
     add_prefix pre input @ snd (SanitizeNameForObjC ns pre input ext)"
proof -
  have "add_prefix pre pre = pre @ pre"
    by (simp add: add_prefix_cases)
  moreover have "fst (SanitizeNameForObjC ns pre input ext) =
      add_prefix pre input @ snd (SanitizeNameForObjC ns pre input ext)"
    by (simp add: SanitizeNameForObjC_def Let_def)
  ultimately show ?thesis
    using add_prefix_cases [of pre input] add_prefix_fixed [of pre input] by blast
qed

theorem add_prefix_rule_witness:
  "add_prefix ''ABC'' ''ABCFoo'' = ''ABCFoo'' \<and> add_prefix ''ABC'' ''ABC'' = ''ABCABC''"
  using add_prefix_rule [of "''ABC''" "''ABCFoo''" "[]" "''_X''"]
    add_prefix_rule [of "''ABC''" "''ABC''" "[]" "''_X''"]
  by (simp add: StartsWith_def ascii_isupper_def)

lemma resanitize_iff:
  "(fst (SanitizeNameForObjC ns p r s) = r) =
     ((p = [] \<or> (StartsWith r p \<and> length p < length r \<and> ascii_isupper (r ! length p))) \<and>
      (\<not> is_reserved ns r \<or> s = []))"
proof (cases "add_prefix p r = r")
  case True
  then show ?thesis
    using add_prefix_fixed [of p r] by (simp add: SanitizeNameForObjC_def)
next
  case False
  then have ne: "p \<noteq> []" and app: "add_prefix p r = p @ r"
    by (auto simp: add_prefix_cases split: if_splits)
  have "length (fst (SanitizeNameForObjC ns p r s)) > length r"
    using ne by (simp add: SanitizeNameForObjC_def app Let_def)
  then have "fst (SanitizeNameForObjC ns p r s) \<noteq> r" by auto
  moreover have "\<not> (p = [] \<or> (StartsWith r p \<and> length p < length r \<and> ascii_isupper (r ! length p)))"
    using False add_prefix_fixed [of p r] by blast
  ultimately show ?thesis by blast
qed

lemma add_prefix_idem_upper:
  assumes "x \<noteq> []" "ascii_isupper (hd x)"
  shows "add_prefix p (add_prefix p x) = add_prefix p x"
proof (cases "StartsWith x p \<and> length p < length x \<and> ascii_isupper (x ! length p)")
  case True
  then have "add_prefix p x = x" by (simp add: add_prefix_cases)
  then show ?thesis by simp
next
  case False
  then have a: "add_prefix p x = p @ x" by (auto simp: add_prefix_cases)
  have "StartsWith (p @ x) p" by (simp add: StartsWith_def)
  moreover have "(p @ x) ! length p = hd x" using assms(1) by (simp add: nth_append hd_conv_nth)
  ultimately show ?thesis using assms a by (simp add: add_prefix_fixed)
qed

text \<open>
  Whatever the table of inherited method names holds, sanitizing "foo" with the prefix
  "ABC" twice does not give what sanitizing it once gives: the first result starts with
  "ABCf", so the second call adds the prefix again.
\<close>

lemma resanitize_foo:
  "fst (SanitizeNameForObjC ns ''ABC'' (fst (SanitizeNameForObjC ns ''ABC'' ''foo'' ''_X'')) ''_X'')
     \<noteq> fst (SanitizeNameForObjC ns ''ABC'' ''foo'' ''_X'')"
  by (simp add: resanitize_iff)
    (simp add: SanitizeNameForObjC_def Let_def add_prefix_def StartsWith_def ascii_isupper_def)

text \<open>
  C2 as stated fails: with the prefix "ABC", the input "foo" and the suffix "_X" the
  first call returns "ABCfoo" and the second call, on "ABCfoo", returns "ABCABCfoo".
\<close>

theorem sanitize_twice_counterexample:
  "fst (SanitizeNameForObjC [] ''ABC'' ''foo'' ''_X'') = ''ABCfoo'' \<and>
   fst (SanitizeNameForObjC [] ''ABC'' (fst (SanitizeNameForObjC [] ''ABC'' ''foo'' ''_X'')) ''_X'')
     = ''ABCABCfoo''"
  by code_simp

text \<open>
  C2 (amended). Sanitizing the result \<open>r\<close> of a first call again, with the same prefix
  and suffix, returns \<open>r\<close> exactly when the prefix step keeps \<open>r\<close> (the prefix is empty,
  or \<open>r\<close> starts with the prefix, is longer, and has an upper case character right after
  it) and \<open>r\<close> does not collide (or the suffix is empty). This is so in particular when
  the input is not empty, starts with an upper case letter and the first call met no
  collision: then the second call returns the same name and the same (empty) suffix.
\<close>

theorem sanitize_twice:
  "((fst (SanitizeNameForObjC ns p (fst (SanitizeNameForObjC ns p x s)) s) =
       fst (SanitizeNameForObjC ns p x s)) =
     (let r = fst (SanitizeNameForObjC ns p x s) in
        (p = [] \<or> (StartsWith r p \<and> length p < length r \<and> ascii_isupper (r ! length p))) \<and>
        (\<not> is_reserved ns r \<or> s = []))) \<and>
   (x \<noteq> [] \<and> ascii_isupper (hd x) \<and> \<not> is_reserved ns (add_prefix p x) \<longrightarrow>
      SanitizeNameForObjC ns p (fst (SanitizeNameForObjC ns p x s)) s =
        SanitizeNameForObjC ns p x s)"
proof -
  have "SanitizeNameForObjC ns p (fst (SanitizeNameForObjC ns p x s)) s =
          SanitizeNameForObjC ns p x s"
    if "x \<noteq> []" "ascii_isupper (hd x)" "\<not> is_reserved ns (add_prefix p x)"
    using that add_prefix_idem_upper [of x p]
    by (simp add: SanitizeNameForObjC_def Let_def)
  then show ?thesis
    using resanitize_iff [of ns p "fst (SanitizeNameForObjC ns p x s)" s]
    by (simp add: Let_def)
qed

theorem sanitize_twice_witness:
  "fst (SanitizeNameForObjC [''retain''] ''ABC'' ''Foo'' ''_X'') = ''ABCFoo'' \<and>
   SanitizeNameForObjC [''retain''] ''ABC''
       (fst (SanitizeNameForObjC [''retain''] ''ABC'' ''Foo'' ''_X'')) ''_X'' =
     SanitizeNameForObjC [''retain''] ''ABC'' ''Foo'' ''_X''"
proof -
  have a: "add_prefix ''ABC'' ''Foo'' = ''ABCFoo''"
    by (simp add: add_prefix_def StartsWith_def)
  have r: "\<not> is_reserved [''retain''] ''ABCFoo''"
    by code_simp
  have u: "''Foo'' \<noteq> [] \<and> ascii_isupper (hd ''Foo'')"
    by (simp add: ascii_isupper_def)
  show ?thesis
    using sanitize_twice [of "[''retain'']" "''ABC''" "''Foo''" "''_X''"] a r u
    by (simp add: SanitizeNameForObjC_def)
qed

text \<open>
  C9. With the empty prefix the prefix step is the identity, so the sanitizer returns
  the input itself and no suffix, or, when the input is a reserved C identifier, a
  reserved word or an inherited method name, the input followed by the suffix, and that
  suffix.
\<close>

theorem sanitize_empty_prefix:
  "add_prefix [] x = x \<and>
   SanitizeNameForObjC ns [] x s = (if is_reserved ns x then (x @ s, s) else (x, [])) \<and>
   is_reserved ns x =
     (IsReservedCIdentifier x \<or> x \<in> set kReservedWordList \<or> x \<in> set ns)"
proof -
  have "add_prefix [] x = x"
    by (simp add: add_prefix_fixed)
  then show ?thesis
    by (simp add: SanitizeNameForObjC_def is_reserved_def Let_def)
qed

theorem sanitize_empty_prefix_witness:
  "SanitizeNameForObjC [''retain''] [] ''id'' ''_p'' = (''id_p'', ''_p'') \<and>
   SanitizeNameForObjC [''retain''] [] ''retain'' ''_p'' = (''retain_p'', ''_p'') \<and>
   SanitizeNameForObjC [''retain''] [] ''__x'' ''_p'' = (''__x_p'', ''_p'') \<and>
   SanitizeNameForObjC [''retain''] [] ''name'' ''_p'' = (''name'', [])"
proof -
  have "is_reserved [''retain''] ''id''" "is_reserved [''retain''] ''retain''"
    "is_reserved [''retain''] ''__x''" "\<not> is_reserved [''retain''] ''name''"
    by code_simp+
  then show ?thesis
    using sanitize_empty_prefix [of "''id''" "[''retain'']" "''_p''"]
      sanitize_empty_prefix [of "''retain''" "[''retain'']" "''_p''"]
      sanitize_empty_prefix [of "''__x''" "[''retain'']" "''_p''"]
      sanitize_empty_prefix [of "''name''" "[''retain'']" "''_p''"]
    by simp
qed

subsection \<open>The class prefix of a file\<close>

lemma mappings_frame:
  "prefix_from_proto_package_mappings fs fp st w = (r, st1, w1) \<Longrightarrow>
     use_package_name st1 = use_package_name st \<and> forced_prefix st1 = forced_prefix st \<and>
     exception_path st1 = exception_path st \<and> exceptions st1 = exceptions st \<and>
     package_to_prefix_mappings_path st1 = package_to_prefix_mappings_path st"
  by (auto simp: prefix_from_proto_package_mappings_def Let_def
      split: option.splits if_splits prod.splits)

lemma exempted_frame:
  "is_package_exempted fs pkg st w = (r, st2, w2) \<Longrightarrow>
     use_package_name st2 = use_package_name st \<and> forced_prefix st2 = forced_prefix st \<and>
     exception_path st2 = exception_path st \<and>
     package_to_prefix_map st2 = package_to_prefix_map st \<and>
     package_to_prefix_mappings_path st2 = package_to_prefix_mappings_path st"
  by (auto simp: is_package_exempted_def Let_def split: if_splits prod.splits)

lemma foo_bar_baz_parts:
  "package_prefix_loop (StrSplit_SkipEmpty ''foo.bar_baz'' CHR ''.'') [] = ''Foo_BarBaz''"
  by code_simp

text \<open>
  C4 (amended). A file without the option, in package "foo.bar_baz", for which the
  mappings give no prefix and which is not exempted, gets the prefix "Foo_BarBaz_" when
  the package name is used as the prefix and no forced prefix is set: the camel-cased
  segments of the package are joined with underscores.
\<close>

theorem package_prefix_foo_bar_baz:
  assumes "objc_class_prefix_option file = None"
    and "package file = ''foo.bar_baz''"
    and "use_package_name st"
    and "forced_prefix st = []"
    and "fst (prefix_from_proto_package_mappings fs (Some file) st w) = []"
    and "fst (is_package_exempted fs ''foo.bar_baz''
            (fst (snd (prefix_from_proto_package_mappings fs (Some file) st w)))
            (snd (snd (prefix_from_proto_package_mappings fs (Some file) st w)))) = False"
  shows "fst (FileClassPrefix fs file st w) = ''Foo_BarBaz_''"
proof -
  obtain r st1 w1 where m: "prefix_from_proto_package_mappings fs (Some file) st w = (r, st1, w1)"
    by (cases "prefix_from_proto_package_mappings fs (Some file) st w") auto
  obtain x st2 w2 where e: "is_package_exempted fs ''foo.bar_baz'' st1 w1 = (x, st2, w2)"
    by (cases "is_package_exempted fs ''foo.bar_baz'' st1 w1") auto
  have r: "r = []" using assms(5) m by simp
  have x: "\<not> x" using assms(6) m e by simp
  have u: "use_package_name st1" using mappings_frame [OF m] assms(3) by simp
  have f: "forced_prefix st2 = []"
    using mappings_frame [OF m] exempted_frame [OF e] assms(4) by simp
  show ?thesis
    using assms(1,2) m e r x u f
    by (simp add: FileClassPrefix_def has_objc_class_prefix_def foo_bar_baz_parts)
qed

theorem package_prefix_foo_bar_baz_witness:
  "fst (FileClassPrefix example_files file_plain (storage True ''expected.txt'' ''empty.txt'' []) quiet)
     = ''Foo_BarBaz_''"
proof -
  have 1: "objc_class_prefix_option file_plain = None" "package file_plain = ''foo.bar_baz''"
    by (simp_all add: file_plain_def)
  have 2: "use_package_name (storage True ''expected.txt'' ''empty.txt'' [])"
    "forced_prefix (storage True ''expected.txt'' ''empty.txt'' []) = []"
    by (simp_all add: storage_def)
  have 3: "fst (prefix_from_proto_package_mappings example_files (Some file_plain)
              (storage True ''expected.txt'' ''empty.txt'' []) quiet) = []"
    by code_simp
  have 4: "fst (is_package_exempted example_files ''foo.bar_baz''
            (fst (snd (prefix_from_proto_package_mappings example_files (Some file_plain)
               (storage True ''expected.txt'' ''empty.txt'' []) quiet)))
            (snd (snd (prefix_from_proto_package_mappings example_files (Some file_plain)
               (storage True ''expected.txt'' ''empty.txt'' []) quiet)))) = False"
    by code_simp
  show ?thesis
    by (rule package_prefix_foo_bar_baz [OF 1 2 3 4])
qed

text \<open>
  C4 as stated fails: with the package name as the prefix, no option, no mappings, no
  exemptions and no forced prefix, the prefix of a file in package "foo.bar_baz" is not
  "FooBarBaz_".
\<close>

theorem package_prefix_counterexample:
  "objc_class_prefix_option file_plain = None \<and> package file_plain = ''foo.bar_baz'' \<and>
   fst (FileClassPrefix example_files file_plain (storage True [] [] []) quiet) \<noteq> ''FooBarBaz_''"
  by code_simp

text \<open>
  C6. A file that declares the option \<^verbatim>\<open>objc_class_prefix\<close>, the empty string
  included, gets exactly the declared prefix, whatever the mappings file, the exemptions,
  the package-name switch and the forced prefix are; nothing is loaded and nothing is
  written.
\<close>

theorem explicit_prefix_wins:
  "objc_class_prefix_option file = Some p \<Longrightarrow> FileClassPrefix fs file st w = (p, st, w)"
  by (simp add: FileClassPrefix_def has_objc_class_prefix_def objc_class_prefix_def)

theorem explicit_prefix_wins_witness:
  "fst (FileClassPrefix example_files file_unprefixed
          (storage True ''expected.txt'' ''empty.txt'' ''GPB'') quiet) = [] \<and>
   fst (FileClassPrefix example_files file_a
          (storage True ''other.txt'' ''empty.txt'' ''GPB'') quiet) = ''ABC''"
  using explicit_prefix_wins [of file_unprefixed "[]" example_files
      "storage True ''expected.txt'' ''empty.txt'' ''GPB''" quiet]
    explicit_prefix_wins [of file_a "''ABC''" example_files
      "storage True ''other.txt'' ''empty.txt'' ''GPB''" quiet]
  by (simp add: file_unprefixed_def file_a_def)

subsection \<open>Loading the mappings and the exemptions\<close>

lemma mappings_failed_load:
  assumes "package_to_prefix_map st = []" "package_to_prefix_mappings_path st \<noteq> []"
    and "fs (package_to_prefix_mappings_path st) = Unreadable e \<or>
         fs (package_to_prefix_mappings_path st) = FileLines []"
  shows "\<exists>r st1 w1. prefix_from_proto_package_mappings fs (Some file) st w = (r, st1, w1) \<and>
           package_to_prefix_map st1 = [] \<and>
           package_to_prefix_mappings_path st1 = package_to_prefix_mappings_path st \<and>
           files_read w1 = files_read w @ [package_to_prefix_mappings_path st]"
  using assms
  by (auto simp: prefix_from_proto_package_mappings_def ParseSimpleFile_def Let_def map_find_def
      split: option.splits)

lemma exempted_loaded:
  assumes "exception_path st \<noteq> []"
  shows "\<exists>r st1 w1. is_package_exempted fs pkg st w = (r, st1, w1) \<and>
           exceptions st1 \<noteq> {} \<and> exception_path st1 = exception_path st"
  using assms
  by (auto simp: is_package_exempted_def ParseSimpleFile_def Let_def
      split: prod.splits file_content.splits if_splits)

lemma exempted_no_reload:
  assumes "exceptions st \<noteq> {}"
  shows "is_package_exempted fs pkg st w = (pkg \<in> exceptions st, st, w)"
  using assms by (simp add: is_package_exempted_def)

text \<open>
  C5. The package-to-prefix map does not keep a failed or empty load: when the map is
  empty, a path is set and the file cannot be read or has no entries, a second lookup
  reads the file again. The set of exempted packages does: once a lookup has run with an
  exemptions path set, the set is not empty (it holds at least the entry
  "<not a real package>") and a second lookup reads and writes nothing.
\<close>

theorem mapping_load_retried:
  "(package_to_prefix_map st = [] \<and> package_to_prefix_mappings_path st \<noteq> [] \<and>
    (fs (package_to_prefix_mappings_path st) = Unreadable e \<or>
     fs (package_to_prefix_mappings_path st) = FileLines []) \<longrightarrow>
      files_read (snd (snd (prefix_from_proto_package_mappings fs (Some file')
          (fst (snd (prefix_from_proto_package_mappings fs (Some file) st w)))
          (snd (snd (prefix_from_proto_package_mappings fs (Some file) st w))))))
        = files_read w @ [package_to_prefix_mappings_path st, package_to_prefix_mappings_path st]) \<and>
   (exception_path st \<noteq> [] \<longrightarrow>
      snd (snd (is_package_exempted fs pkg'
          (fst (snd (is_package_exempted fs pkg st w)))
          (snd (snd (is_package_exempted fs pkg st w)))))
        = snd (snd (is_package_exempted fs pkg st w)))"
proof (intro conjI impI)
  assume a: "package_to_prefix_map st = [] \<and> package_to_prefix_mappings_path st \<noteq> [] \<and>
    (fs (package_to_prefix_mappings_path st) = Unreadable e \<or>
     fs (package_to_prefix_mappings_path st) = FileLines [])"
  obtain r st1 w1 where 1: "prefix_from_proto_package_mappings fs (Some file) st w = (r, st1, w1)"
    and 2: "package_to_prefix_map st1 = []"
    and 3: "package_to_prefix_mappings_path st1 = package_to_prefix_mappings_path st"
    and 4: "files_read w1 = files_read w @ [package_to_prefix_mappings_path st]"
    using mappings_failed_load [of st fs e "file" w] a by blast
  obtain r2 st2 w2 where 5: "prefix_from_proto_package_mappings fs (Some file') st1 w1 = (r2, st2, w2)"
    and 6: "files_read w2 = files_read w1 @ [package_to_prefix_mappings_path st1]"
    using mappings_failed_load [of st1 fs e file' w1] a 2 3 by auto
  show "files_read (snd (snd (prefix_from_proto_package_mappings fs (Some file')
          (fst (snd (prefix_from_proto_package_mappings fs (Some file) st w)))
          (snd (snd (prefix_from_proto_package_mappings fs (Some file) st w))))))
        = files_read w @ [package_to_prefix_mappings_path st, package_to_prefix_mappings_path st]"
    using 1 3 4 5 6 by simp
next
  assume b: "exception_path st \<noteq> []"
  obtain r st1 w1 where 1: "is_package_exempted fs pkg st w = (r, st1, w1)"
    and 2: "exceptions st1 \<noteq> {}"
    using exempted_loaded [OF b, of fs pkg w] by blast
  show "snd (snd (is_package_exempted fs pkg'
          (fst (snd (is_package_exempted fs pkg st w)))
          (snd (snd (is_package_exempted fs pkg st w)))))
        = snd (snd (is_package_exempted fs pkg st w))"
    using 1 exempted_no_reload [OF 2, of fs pkg' w1] by simp
qed

theorem mapping_load_retried_witness:
  "files_read (snd (snd (prefix_from_proto_package_mappings example_files (Some file_a)
          (fst (snd (prefix_from_proto_package_mappings example_files (Some file_plain)
             (storage True ''missing.txt'' ''missing.txt'' []) quiet)))
          (snd (snd (prefix_from_proto_package_mappings example_files (Some file_plain)
             (storage True ''missing.txt'' ''missing.txt'' []) quiet))))))
     = [''missing.txt'', ''missing.txt''] \<and>
   files_read (snd (snd (is_package_exempted example_files ''a''
          (fst (snd (is_package_exempted example_files ''foo.bar_baz''
             (storage True ''missing.txt'' ''missing.txt'' []) quiet)))
          (snd (snd (is_package_exempted example_files ''foo.bar_baz''
             (storage True ''missing.txt'' ''missing.txt'' []) quiet))))))
     = [''missing.txt'']"
proof -
  have 1: "files_read (snd (snd (is_package_exempted example_files ''foo.bar_baz''
             (storage True ''missing.txt'' ''missing.txt'' []) quiet))) = [''missing.txt'']"
    by code_simp
  show ?thesis
    using mapping_load_retried [of "storage True ''missing.txt'' ''missing.txt'' []"
        example_files "[]" file_a file_plain quiet "''a''" "''foo.bar_baz''"] 1
    by (simp add: storage_def example_files_def quiet_def)
qed

subsection \<open>Validation against the expected prefixes\<close>

lemma lookup_key_not_empty: "lookup_key f \<noteq> []"
  by (simp add: lookup_key_def no_package_prefix_def)



lemma validate_files_loop_first_invalid:
  assumes "\<forall>g \<in> set before. name g \<in> set (expected_prefixes_suppressions opts) \<or>
             fst (ValidateObjCClassPrefix g (expected_prefixes_path opts) reg
                    (prefixes_must_be_registered opts) (require_prefixes opts)) = Valid"
    and "name f \<notin> set (expected_prefixes_suppressions opts)"
    and "fst (ValidateObjCClassPrefix f (expected_prefixes_path opts) reg
                (prefixes_must_be_registered opts) (require_prefixes opts)) = Invalid err"
  shows "fst (validate_files_loop (before @ f # after) opts reg w) = Invalid err"
  using assms
proof (induction before arbitrary: w)
  case Nil
  then show ?case
    by (cases "ValidateObjCClassPrefix f (expected_prefixes_path opts) reg
                (prefixes_must_be_registered opts) (require_prefixes opts)") simp
next
  case (Cons g before)
  show ?case
  proof (cases "name g \<in> set (expected_prefixes_suppressions opts)")
    case True
    then show ?thesis using Cons by simp
  next
    case False
    then have "fst (ValidateObjCClassPrefix g (expected_prefixes_path opts) reg
                    (prefixes_must_be_registered opts) (require_prefixes opts)) = Valid"
      using Cons.prems(1) by simp
    then obtain ws where "ValidateObjCClassPrefix g (expected_prefixes_path opts) reg
                    (prefixes_must_be_registered opts) (require_prefixes opts) = (Valid, ws)"
      by (cases "ValidateObjCClassPrefix g (expected_prefixes_path opts) reg
                    (prefixes_must_be_registered opts) (require_prefixes opts)") simp
    then show ?thesis using False Cons by simp
  qed
qed










text \<open>
  C10. A file that declares the empty prefix and has no entry in the expected prefixes
  is invalid when an expected-prefixes path is set and prefixes must be registered: the
  error asks to add the lookup key with the value \<^verbatim>\<open>""\<close> to that file. The whole
  validation then fails with this error when the path is not "-", the file loads, the
  file is not suppressed and every file before it is suppressed or valid.
\<close>

theorem unregistered_empty_prefix_is_error:
  assumes \<open>objc_class_prefix_option f = Some []\<close>
    and \<open>map_find reg (lookup_key f) = None\<close>
    and \<open>path \<noteq> []\<close>
  shows \<open>ValidateObjCClassPrefix f path reg True required =
           (Invalid (not_registered_error f path), []) \<and>
         not_registered_error f path =
           ''error: '' @ apostrophe @ name f @
           ''' has 'option objc_class_prefix = "";', but it is not registered. Add '' @
           apostrophe @ lookup_key f @ '' = ""' to the expected prefixes file ('' @ path @ '').'' \<and>
         (expected_prefixes_path opts = path \<and> path \<noteq> ''-'' \<and>
          prefixes_must_be_registered opts \<and> require_prefixes opts = required \<and>
          fst (LoadExpectedPackagePrefixes fs path w) = (True, e, reg) \<and>
          name f \<notin> set (expected_prefixes_suppressions opts) \<and>
          (\<forall>g \<in> set before. name g \<in> set (expected_prefixes_suppressions opts) \<or>
             fst (ValidateObjCClassPrefix g path reg True required) = Valid) \<longrightarrow>
          fst (ValidateObjCClassPrefixes fs (before @ f # after) opts w) =
            Invalid (not_registered_error f path))\<close>
proof -
  have 1: "ValidateObjCClassPrefix f path reg True required =
           (Invalid (not_registered_error f path), [])"
    using assms
    by (simp add: ValidateObjCClassPrefix_def has_objc_class_prefix_def objc_class_prefix_def)
  have 2: \<open>not_registered_error f path =
           ''error: '' @ apostrophe @ name f @
           ''' has 'option objc_class_prefix = "";', but it is not registered. Add '' @
           apostrophe @ lookup_key f @ '' = ""' to the expected prefixes file ('' @ path @ '').''\<close>
    using assms(1)
    by (simp add: not_registered_error_def registration_text_def objc_class_prefix_def)
  have 3: "fst (ValidateObjCClassPrefixes fs (before @ f # after) opts w) =
            Invalid (not_registered_error f path)"
    if h: "expected_prefixes_path opts = path \<and> path \<noteq> ''-'' \<and>
          prefixes_must_be_registered opts \<and> require_prefixes opts = required \<and>
          fst (LoadExpectedPackagePrefixes fs path w) = (True, e, reg) \<and>
          name f \<notin> set (expected_prefixes_suppressions opts) \<and>
          (\<forall>g \<in> set before. name g \<in> set (expected_prefixes_suppressions opts) \<or>
             fst (ValidateObjCClassPrefix g path reg True required) = Valid)"
  proof -
    obtain w' where l: "LoadExpectedPackagePrefixes fs path w = ((True, e, reg), w')"
      using h by (cases "LoadExpectedPackagePrefixes fs path w") auto
    have "fst (validate_files_loop (before @ f # after) opts reg w') =
            Invalid (not_registered_error f path)"
      by (rule validate_files_loop_first_invalid) (use h 1 in auto)
    then show ?thesis using h l by (simp add: ValidateObjCClassPrefixes_def)
  qed
  from 1 2 3 show ?thesis by blast
qed

theorem unregistered_empty_prefix_is_error_witness:
  "fst (ValidateObjCClassPrefix file_unprefixed ''expected.txt'' [(''a'', ''ABC'')] True False) =
     Invalid (not_registered_error file_unprefixed ''expected.txt'') \<and>
   fst (ValidateObjCClassPrefixes example_files [file_a, file_unprefixed]
          (options ''expected.txt'' True False) quiet) =
     Invalid (not_registered_error file_unprefixed ''expected.txt'')"
proof -
  have a: "objc_class_prefix_option file_unprefixed = Some []"
    by (simp add: file_unprefixed_def)
  have b: "map_find [(''a'', ''ABC'')] (lookup_key file_unprefixed) = None"
    by (simp add: file_unprefixed_def lookup_key_def map_find_def)
  have c: "''expected.txt'' \<noteq> []" by simp
  have d: "fst (LoadExpectedPackagePrefixes example_files ''expected.txt'' quiet) =
             (True, [], [(''a'', ''ABC'')])"
    by code_simp
  have g: "fst (ValidateObjCClassPrefix file_a ''expected.txt'' [(''a'', ''ABC'')] True False) = Valid"
    by code_simp
  show ?thesis
    using unregistered_empty_prefix_is_error [OF a b c, of False
        "options ''expected.txt'' True False" example_files quiet "[]" "[file_a]" "[]"] d g
    by (simp add: options_def)
qed

end
